theory Spec2Isabelle
  imports Complex_Main "HOL-Library.Sublist" "HOL-Library.Multiset" "HOL-Library.Log_Nat"
begin

section \<open>Data model of the worker (dexbot/strategies/base.py)\<close>

text \<open>
  Quantities are Python numbers; they are modelled as rationals. Sums and products are
  exact; the divisions of \<open>get_updated_limit_order\<close> round to a binary64 number, as
  Python's do. Strings are lists of 8-bit characters. Logging calls are left out: they
  have no effect on the worker.
\<close>

text \<open>The entries \<open>market['base']\<close> and \<open>market['quote']\<close>: symbol, precision and id.\<close>

record asset =
  symbol :: string
  precision :: nat
  asset_id :: string

record market =
  m_base :: asset
  m_quote :: asset

text \<open>
  The exceptions the worker distinguishes: \<open>bitsharesapi.exceptions.UnhandledRPCError\<close>
  with its message \<open>str(e)\<close>, \<open>bitshares.exceptions.MissingKeyError\<close>, Python's
  \<open>ZeroDivisionError\<close>, the exception raised when a name that no class defines is
  looked up on the worker (\<open>UndefinedName\<close> with the name), and any other exception.
\<close>

datatype exn =
    UnhandledRPCError string
  | MissingKeyError
  | ZeroDivisionError
  | UndefinedName string
  | OtherError string

text \<open>
  The state-mutating calls of the remote API. \<open>bitshares.cancel\<close> is handed either a
  list of order ids or one id; \<open>market.buy\<close> and \<open>market.sell\<close> are handed the
  price and the amount of the quote asset.
\<close>

datatype cancel_arg = IdList "string list" | IdOne string

datatype call = MarketBuy rat rat | MarketSell rat rat | Cancel cancel_arg

record transaction =
  orderid :: string

text \<open>A raw entry of \<open>account['limit_orders']\<close>.\<close>

record asset_amount =
  amount :: rat
  amount_asset_id :: string

record price_ratio =
  sp_base :: asset_amount
  sp_quote :: asset_amount

record limit_order =
  lo_id :: string
  for_sale :: rat
  sell_price :: price_ratio

text \<open>
  The library's \<open>Amount\<close> (\<open>['amount']\<close>, \<open>['symbol']\<close>, \<open>['asset']['id']\<close>) and
  \<open>Order\<close>. An order the ledger no longer has is returned by the library with
  \<open>deleted\<close> set and nothing else but its id; its other fields carry no information
  until \<open>calculate_order_data\<close> sets them. The id is optional (\<open>'id' in order\<close>).
\<close>

record amount_obj =
  a_amount :: rat
  a_symbol :: string
  a_asset_id :: string

record order_obj =
  o_id :: "string option"
  o_base :: amount_obj
  o_quote :: amount_obj
  o_price :: rat
  o_deleted :: bool

text \<open>
  The argument \<open>order_ids\<close> of \<open>get_allocated_assets\<close> is None, one id or a list of ids.
  Its result holds plain numbers, or \<open>Amount\<close> objects when \<open>return_asset\<close> is set.
\<close>

datatype ids_arg = NoIds | OneId string | Ids "string list"

datatype num_or_amount = Number rat | AmountOf amount_obj

record allocation =
  quote :: num_or_amount
  base :: num_or_amount

text \<open>
  The worker and what it sees of the outside. \<open>remote\<close> is the behaviour of the remote
  API: the answer to a call, given the calls made before it; \<open>calls\<close> logs every call
  made. \<open>balances\<close> is the account's free balance by asset id, \<open>limit_orders\<close> is
  \<open>account['limit_orders']\<close>, \<open>ledger\<close> is the library's lookup \<open>Order(order_id)\<close>.
  \<open>txbuffer_clears\<close>, \<open>refreshes\<close>, \<open>sleeps\<close> and \<open>lookups\<close> record the calls of
  \<open>txbuffer.clear()\<close>, \<open>account.refresh()\<close>, \<open>time.sleep(n)\<close> and
  \<open>get_updated_order(id)\<close>.
\<close>

record world =
  disabled :: bool
  recheck_orders :: bool
  balances :: "string \<Rightarrow> rat"
  limit_orders :: "limit_order list"
  ledger :: "string \<Rightarrow> order_obj"
  remote :: "call list \<Rightarrow> call \<Rightarrow> exn + transaction"
  calls :: "call list"
  txbuffer_clears :: nat
  refreshes :: nat
  sleeps :: "nat list"
  lookups :: "string list"

definition remote_call :: "call \<Rightarrow> world \<Rightarrow> (exn + transaction) \<times> world" where
  "remote_call c w = (remote w (calls w) c, w\<lparr>calls := calls w @ [c]\<rparr>)"

definition market_buy :: "rat \<Rightarrow> rat \<Rightarrow> world \<Rightarrow> (exn + transaction) \<times> world" where
  "market_buy price amnt = remote_call (MarketBuy price amnt)"

definition market_sell :: "rat \<Rightarrow> rat \<Rightarrow> world \<Rightarrow> (exn + transaction) \<times> world" where
  "market_sell price amnt = remote_call (MarketSell price amnt)"

definition bitshares_cancel :: "cancel_arg \<Rightarrow> world \<Rightarrow> (exn + transaction) \<times> world" where
  "bitshares_cancel orders = remote_call (Cancel orders)"

definition txbuffer_clear :: "world \<Rightarrow> world" where
  "txbuffer_clear w = w\<lparr>txbuffer_clears := txbuffer_clears w + 1\<rparr>"

definition account_refresh :: "world \<Rightarrow> world" where
  "account_refresh w = w\<lparr>refreshes := refreshes w + 1\<rparr>"

definition sleep :: "nat \<Rightarrow> world \<Rightarrow> world" where
  "sleep n w = w\<lparr>sleeps := sleeps w @ [n]\<rparr>"

section \<open>retry_action\<close>

text \<open>Python's \<open>needle in haystack\<close> on strings: the needle occurs as a substring.\<close>

fun contains :: "string \<Rightarrow> string \<Rightarrow> bool" where
  "contains needle [] = (needle = [])"
| "contains needle (c # cs) = (prefix needle (c # cs) \<or> contains needle cs)"

definition MAX_TRIES :: nat where
  "MAX_TRIES = 3"

text \<open>
  The \<open>while True\<close> loop of \<open>retry_action\<close>, with the local counter \<open>tries\<close> as an
  argument. The action is any computation on the worker that returns or raises.
\<close>

function retry_loop ::
  "(world \<Rightarrow> (exn + 'a) \<times> world) \<Rightarrow> nat \<Rightarrow> world \<Rightarrow> (exn + 'a) \<times> world" where
  "retry_loop action tries w =
     (case action w of
        (Inr r, w1) \<Rightarrow> (Inr r, w1)
      | (Inl e, w1) \<Rightarrow>
          (case e of
             UnhandledRPCError msg \<Rightarrow>
               if contains ''Assert Exception: amount_to_sell.amount > 0'' msg then
                 if tries > MAX_TRIES then (Inl e, w1)
                 else retry_loop action (tries + 1)
                        (sleep 2 (account_refresh (txbuffer_clear w1)))
               else if contains ''now <= trx.expiration'' msg then
                 if tries > MAX_TRIES then (Inl e, w1)
                 else retry_loop action (tries + 1) (sleep 6 (txbuffer_clear w1))
               else (Inl e, w1)
           | _ \<Rightarrow> (Inl e, w1)))"
  by pat_completeness auto
termination
  by (relation "measure (\<lambda>(action, tries, w). Suc MAX_TRIES - tries)") auto

definition retry_action ::
  "(world \<Rightarrow> (exn + 'a) \<times> world) \<Rightarrow> world \<Rightarrow> (exn + 'a) \<times> world" where
  "retry_action action w = retry_loop action 0 w"

section \<open>Cancelling orders\<close>

text \<open>
  \<open>_cancel_orders\<close>: the batched cancel through \<open>retry_action\<close>. An
  \<open>UnhandledRPCError\<close> whose message starts with the "Unable to find Object" assertion
  clears the transaction buffer and returns False; any other \<open>UnhandledRPCError\<close> and a
  \<open>MissingKeyError\<close> are logged and the method returns True; every other exception
  propagates.
\<close>

definition private_cancel_orders :: "cancel_arg \<Rightarrow> world \<Rightarrow> (exn + bool) \<times> world" where
  "private_cancel_orders orders w =
     (case retry_action (bitshares_cancel orders) w of
        (Inr r, w1) \<Rightarrow> (Inr True, w1)
      | (Inl e, w1) \<Rightarrow>
          (case e of
             UnhandledRPCError msg \<Rightarrow>
               if prefix ''Assert Exception: maybe_found != nullptr: Unable to find Object'' msg
               then (Inr False, txbuffer_clear w1)
               else (Inr True, w1)
           | MissingKeyError \<Rightarrow> (Inr True, w1)
           | _ \<Rightarrow> (Inl e, w1)))"

text \<open>
  \<open>cancel_orders\<close> takes one order or a collection of orders. The helper it calls,
  \<open>self._cancel\<close>, is a parameter. \<open>cancel_each\<close> is the \<open>for\<close> loop of the fallback.
\<close>

datatype orders_arg = OneOrder order_obj | ManyOrders "order_obj list"

fun cancel_each ::
  "(cancel_arg \<Rightarrow> world \<Rightarrow> (exn + bool) \<times> world) \<Rightarrow> string list \<Rightarrow> world \<Rightarrow> (exn + unit) \<times> world" where
  "cancel_each cancel [] w = (Inr (), w)"
| "cancel_each cancel (order_id # rest) w =
     (case cancel (IdOne order_id) w of
        (Inl e, w1) \<Rightarrow> (Inl e, w1)
      | (Inr r, w1) \<Rightarrow> cancel_each cancel rest w1)"

definition cancel_orders ::
  "(cancel_arg \<Rightarrow> world \<Rightarrow> (exn + bool) \<times> world) \<Rightarrow> orders_arg \<Rightarrow> world \<Rightarrow> (exn + unit) \<times> world" where
  "cancel_orders cancel orders_in w =
     (let order_list = (case orders_in of OneOrder ord \<Rightarrow> [ord] | ManyOrders os \<Rightarrow> os);
          orders = List.map_filter o_id order_list
      in case cancel (IdList orders) w of
           (Inl e, w1) \<Rightarrow> (Inl e, w1)
         | (Inr success, w1) \<Rightarrow>
             if \<not> success \<and> length orders > 1 then cancel_each cancel orders w1
             else (Inr (), w1))"

text \<open>
  No class of the sources defines \<open>_cancel\<close> (the method of base.py is
  \<open>_cancel_orders\<close>): looking the name up on the worker raises, before the helper is
  called with anything.
\<close>

definition missing_cancel :: "cancel_arg \<Rightarrow> world \<Rightarrow> (exn + bool) \<times> world" where
  "missing_cancel orders w = (Inl (UndefinedName ''_cancel''), w)"

section \<open>Placing orders\<close>

text \<open>
  Modelled from the spec: \<open>truncate\<close> of \<open>dexbot.helper\<close>, which is not among the
  sources. It cuts a number down to the given number of decimals, never rounding up.
\<close>

definition truncate :: "rat \<Rightarrow> nat \<Rightarrow> rat" where
  "truncate number decimals = of_int \<lfloor>number * 10 ^ decimals\<rfloor> / 10 ^ decimals"

definition balance :: "world \<Rightarrow> asset \<Rightarrow> rat" where
  "balance w a = balances w (asset_id a)"

text \<open>The library's \<open>Amount(x, symbol)\<close> for one of the market's two assets.\<close>

definition Amount :: "rat \<Rightarrow> asset \<Rightarrow> amount_obj" where
  "Amount x a = \<lparr>a_amount = x, a_symbol = symbol a, a_asset_id = asset_id a\<rparr>"

definition calculate_order_data :: "market \<Rightarrow> order_obj \<Rightarrow> rat \<Rightarrow> rat \<Rightarrow> order_obj" where
  "calculate_order_data m ord amnt price =
     (let quote_asset = Amount amnt (m_quote m);
          ord = ord\<lparr>o_quote := quote_asset\<rparr>;
          ord = ord\<lparr>o_price := price\<rparr>;
          base_asset = Amount (amnt * price) (m_base m);
          ord = ord\<lparr>o_base := base_asset\<rparr>
      in ord)"

text \<open>
  Modelled from the spec: \<open>Order.invert\<close> of the bitshares library, which is not among the
  sources. It exchanges the base and the quote of the order, and the price is recomputed
  as the new base amount over the new quote amount. For a quote amount of zero the
  library's price is infinite, which a rational cannot be; no property below is about
  that case.
\<close>

definition invert :: "order_obj \<Rightarrow> order_obj" where
  "invert ord =
     ord\<lparr>o_base := o_quote ord, o_quote := o_base ord,
         o_price := a_amount (o_quote ord) / a_amount (o_base ord)\<rparr>"

text \<open>
  \<open>get_original_order\<close> on an order id given as a string. On a string, \<open>'id' in order_id\<close>
  is the substring test, and indexing the string with \<open>'id'\<close> raises a TypeError.
\<close>

definition get_original_order :: "string \<Rightarrow> bool \<Rightarrow> world \<Rightarrow> exn + order_obj option" where
  "get_original_order order_id return_none w =
     (if order_id = [] then Inr None
      else if contains ''id'' order_id then Inl (OtherError ''TypeError'')
      else
        let ord = ledger w order_id in
        if return_none \<and> o_deleted ord then Inr None else Inr (Some ord))"

text \<open>
  \<open>buy\<close> and \<open>sell\<close>. The lookup they call, \<open>self.get_order\<close>, is a parameter: it
  reads the worker's view and returns an order, None, or raises. No class of the sources
  defines \<open>get_order\<close> (the method of base.py is \<open>get_original_order\<close>): looking the
  name up on the worker raises.
\<close>

definition missing_get_order :: "string \<Rightarrow> bool \<Rightarrow> world \<Rightarrow> exn + order_obj option" where
  "missing_get_order order_id return_none w = Inl (UndefinedName ''get_order'')"

definition buy ::
  "(string \<Rightarrow> bool \<Rightarrow> world \<Rightarrow> exn + order_obj option) \<Rightarrow> market \<Rightarrow> rat \<Rightarrow> rat \<Rightarrow> bool \<Rightarrow> world
     \<Rightarrow> (exn + order_obj option) \<times> world" where
  "buy get_order m amnt price return_none w =
     (let base_amount = truncate (price * amnt) (precision (m_base m)) in
      if base_amount = 0 then (Inr None, w\<lparr>disabled := True\<rparr>)
      else if balance w (m_base m) < base_amount then (Inr None, w\<lparr>disabled := True\<rparr>)
      else
        case retry_action (market_buy price amnt) w of
          (Inl e, w1) \<Rightarrow> (Inl e, w1)
        | (Inr buy_transaction, w1) \<Rightarrow>
            (case get_order (orderid buy_transaction) return_none w1 of
               Inl e \<Rightarrow> (Inl e, w1)
             | Inr None \<Rightarrow> (Inr None, w1)
             | Inr (Some buy_order) \<Rightarrow>
                 if o_deleted buy_order then
                   (Inr (Some (calculate_order_data m buy_order amnt price)),
                    w1\<lparr>recheck_orders := True\<rparr>)
                 else (Inr (Some buy_order), w1)))"

definition sell ::
  "(string \<Rightarrow> bool \<Rightarrow> world \<Rightarrow> exn + order_obj option) \<Rightarrow> market \<Rightarrow> rat \<Rightarrow> rat \<Rightarrow> bool \<Rightarrow> world
     \<Rightarrow> (exn + order_obj option) \<times> world" where
  "sell get_order m amnt price return_none w =
     (let quote_amount = truncate amnt (precision (m_quote m)) in
      if quote_amount = 0 then (Inr None, w\<lparr>disabled := True\<rparr>)
      else if balance w (m_quote m) < quote_amount then (Inr None, w\<lparr>disabled := True\<rparr>)
      else
        case retry_action (market_sell price amnt) w of
          (Inl e, w1) \<Rightarrow> (Inl e, w1)
        | (Inr sell_transaction, w1) \<Rightarrow>
            (case get_order (orderid sell_transaction) return_none w1 of
               Inl e \<Rightarrow> (Inl e, w1)
             | Inr None \<Rightarrow> (Inr None, w1)
             | Inr (Some sell_order) \<Rightarrow>
                 if o_deleted sell_order then
                   (Inr (Some (invert (calculate_order_data m sell_order amnt price))),
                    w1\<lparr>recheck_orders := True\<rparr>)
                 else (Inr (Some sell_order), w1)))"

text \<open>\<open>Strategy.error\<close> of support_price.py, the strategy's handler of the error events.\<close>

definition strategy_error :: "world \<Rightarrow> world" where
  "strategy_error w = w\<lparr>disabled := False\<rparr>"

section \<open>Sorting orders\<close>

text \<open>
  \<open>str.upper\<close> on the characters of ASCII, and Python's \<open>sorted(xs, key=key,
  reverse=reverse)\<close>: a stable sort, which for \<open>reverse\<close> sorts the reversed list and
  reverses the result, so that equal keys keep their original order in both directions.
  The parameter \<open>sort\<close> of \<open>sort_orders\<close> is named \<open>direction\<close> here.
\<close>

definition upper_char :: "char \<Rightarrow> char" where
  "upper_char c =
     (case map_of (zip ''abcdefghijklmnopqrstuvwxyz'' ''ABCDEFGHIJKLMNOPQRSTUVWXYZ'') c of
        Some u \<Rightarrow> u
      | None \<Rightarrow> c)"

definition upper :: "string \<Rightarrow> string" where
  "upper s = map upper_char s"

definition sorted_py :: "('a \<Rightarrow> 'k::linorder) \<Rightarrow> bool \<Rightarrow> 'a list \<Rightarrow> 'a list" where
  "sorted_py key reverse xs = (if reverse then rev (sort_key key (rev xs)) else sort_key key xs)"

definition sort_orders :: "order_obj list \<Rightarrow> string \<Rightarrow> order_obj list option" where
  "sort_orders orders direction =
     (if upper direction = ''ASC'' then Some (sorted_py o_price False orders)
      else if upper direction = ''DESC'' then Some (sorted_py o_price True orders)
      else None)"

section \<open>Updated limit orders\<close>

text \<open>
  The binary64 number nearest to a rational, ties going to the even significand:
  \<open>to_double x\<close> is \<open>m * 2 ^ e\<close> with \<open>m\<close> the integer nearest to \<open>x / 2 ^ e\<close>, where
  \<open>e\<close> is chosen so that \<open>x / 2 ^ e\<close> lies between \<open>2 ^ 52\<close> and \<open>2 ^ 53\<close>. The exponent
  is not bounded: quotients of 64-bit amounts are far from the ends of the range of
  binary64, where Python overflows or loses digits.
\<close>

definition round_half_even :: "rat \<Rightarrow> int" where
  "round_half_even x =
     (let f = \<lfloor>x\<rfloor>; r = x - of_int f
      in if r < 1 / 2 then f else if 1 / 2 < r then f + 1 else if even f then f else f + 1)"

definition scale2 :: "rat \<Rightarrow> int \<Rightarrow> rat" where
  "scale2 x e = (if 0 \<le> e then x * 2 ^ nat e else x / 2 ^ nat (- e))"

definition to_double :: "rat \<Rightarrow> rat" where
  "to_double x =
     (if x = 0 then 0 else
      let a = \<bar>x\<bar>;
          e = (if 1 \<le> a then int (floorlog 2 (nat \<lfloor>a\<rfloor>)) - 53
               else - int (floorlog 2 (nat \<lfloor>1 / a\<rfloor>)) - 52);
          m = round_half_even (scale2 a (- e))
      in sgn x * scale2 (of_int m) e)"

text \<open>
  Python's \<open>/\<close> raises on a zero divisor. The quotient of two integers, and of two
  floats, is the exact quotient rounded once.
\<close>

definition py_div :: "rat \<Rightarrow> rat \<Rightarrow> exn + rat" where
  "py_div x y = (if y = 0 then Inl ZeroDivisionError else Inr (to_double (x / y)))"

text \<open>
  \<open>get_updated_limit_order\<close> on the value of the record: what the returned record holds.
  The amounts of a raw limit order are integers, so \<open>price\<close> is the quotient of two
  integers; in \<open>base_amount / price\<close> the integer \<open>base_amount\<close> is converted to a float
  before the division, \<open>price\<close> being one.
\<close>

definition get_updated_limit_order :: "limit_order \<Rightarrow> exn + limit_order" where
  "get_updated_limit_order limit_order =
     (let ord = limit_order in
      case py_div (amount (sp_base (sell_price ord))) (amount (sp_quote (sell_price ord))) of
        Inl e \<Rightarrow> Inl e
      | Inr price \<Rightarrow>
          let base_amount = for_sale ord in
          (case py_div (to_double base_amount) price of
             Inl e \<Rightarrow> Inl e
           | Inr quote_amount \<Rightarrow>
               Inr (ord\<lparr>sell_price :=
                     \<lparr>sp_base = (sp_base (sell_price ord))\<lparr>amount := base_amount\<rparr>,
                      sp_quote = (sp_quote (sell_price ord))\<lparr>amount := quote_amount\<rparr>\<rparr>\<rparr>)))"

text \<open>
  \<open>get_updated_order\<close> on an order id given as a string: the first entry of
  \<open>account['limit_orders']\<close> with that id, updated and handed to the library's \<open>Order\<close>
  constructor, which is a parameter.
\<close>

definition get_updated_order ::
  "(limit_order \<Rightarrow> order_obj) \<Rightarrow> string \<Rightarrow> world \<Rightarrow> (exn + order_obj option) \<times> world" where
  "get_updated_order order_of order_id w =
     (let w1 = w\<lparr>lookups := lookups w @ [order_id]\<rparr> in
      case find (\<lambda>limit_order. order_id = lo_id limit_order) (limit_orders w) of
        None \<Rightarrow> (Inr None, w1)
      | Some ord \<Rightarrow>
          (case get_updated_limit_order ord of
             Inl e \<Rightarrow> (Inl e, w1)
           | Inr ord' \<Rightarrow> (Inr (Some (order_of ord')), w1)))"

section \<open>Allocated assets\<close>

fun allocated_loop ::
  "(limit_order \<Rightarrow> order_obj) \<Rightarrow> market \<Rightarrow> string list \<Rightarrow> rat \<Rightarrow> rat \<Rightarrow> world
     \<Rightarrow> (exn + rat \<times> rat) \<times> world" where
  "allocated_loop order_of m [] quote_sum base_sum w = (Inr (quote_sum, base_sum), w)"
| "allocated_loop order_of m (order_id # rest) quote_sum base_sum w =
     (case get_updated_order order_of order_id w of
        (Inl e, w1) \<Rightarrow> (Inl e, w1)
      | (Inr None, w1) \<Rightarrow> allocated_loop order_of m rest quote_sum base_sum w1
      | (Inr (Some ord), w1) \<Rightarrow>
          (let aid = a_asset_id (o_base ord) in
           if aid = asset_id (m_quote m) then
             allocated_loop order_of m rest (quote_sum + a_amount (o_base ord)) base_sum w1
           else if aid = asset_id (m_base m) then
             allocated_loop order_of m rest quote_sum (base_sum + a_amount (o_base ord)) w1
           else allocated_loop order_of m rest quote_sum base_sum w1))"

definition get_allocated_assets ::
  "(limit_order \<Rightarrow> order_obj) \<Rightarrow> market \<Rightarrow> ids_arg \<Rightarrow> bool \<Rightarrow> world
     \<Rightarrow> (exn + allocation) \<times> world" where
  "get_allocated_assets order_of m order_ids return_asset w =
     (let ids = (case order_ids of
                   NoIds \<Rightarrow> []
                 | OneId s \<Rightarrow> if s = [] then [] else [s]
                 | Ids l \<Rightarrow> l)
      in case allocated_loop order_of m ids 0 0 w of
           (Inl e, w1) \<Rightarrow> (Inl e, w1)
         | (Inr (quote_sum, base_sum), w1) \<Rightarrow>
             if return_asset then
               (Inr \<lparr>quote = AmountOf (Amount quote_sum (m_quote m)),
                     base = AmountOf (Amount base_sum (m_base m))\<rparr>, w1)
             else (Inr \<lparr>quote = Number quote_sum, base = Number base_sum\<rparr>, w1))"

section \<open>Updated limit orders in the store\<close>

text \<open>
  The same \<open>get_updated_limit_order\<close> with its objects in a store, to tell the record it
  is given from the record it returns. A raw limit order is three kinds of dictionaries:
  the order (\<open>id\<close>, \<open>for_sale\<close>, a reference to its \<open>sell_price\<close>), the price (references
  to its \<open>base\<close> and its \<open>quote\<close>) and the amount (\<open>amount\<close>, \<open>asset_id\<close>). An address is
  an index into the store; a new object goes to the end.
\<close>

type_synonym addr = nat

datatype obj = AmountObj rat string | PriceObj addr addr | LimitOrderObj string rat addr

type_synonym store = "obj list"

type_synonym 'a prog = "store \<Rightarrow> (exn + 'a) \<times> store"

definition bind_prog :: "'a prog \<Rightarrow> ('a \<Rightarrow> 'b prog) \<Rightarrow> 'b prog" where
  "bind_prog f g h = (case f h of (Inl e, h1) \<Rightarrow> (Inl e, h1) | (Inr x, h1) \<Rightarrow> g x h1)"

definition return_prog :: "'a \<Rightarrow> 'a prog" where
  "return_prog x h = (Inr x, h)"

definition deref :: "store \<Rightarrow> addr \<Rightarrow> obj option" where
  "deref h a = (if a < length h then Some (h ! a) else None)"

text \<open>
  \<open>copy.deepcopy\<close> of a limit order: new objects for the order, its price and its
  amounts; an amount that is both the base and the quote of the price is copied once, as
  the memo of \<open>deepcopy\<close> does. An argument that is not a limit order would be copied too
  and make the first access by key raise; here it raises at once.
\<close>

definition deepcopy :: "addr \<Rightarrow> addr prog" where
  "deepcopy a h =
     (case deref h a of
        Some (LimitOrderObj i fs sp) \<Rightarrow>
          (case deref h sp of
             Some (PriceObj b q) \<Rightarrow>
               (case (deref h b, deref h q) of
                  (Some (AmountObj ba bi), Some (AmountObj qa qi)) \<Rightarrow>
                    (let n = length h;
                         b' = n + 2;
                         q' = (if q = b then b' else n + 3)
                     in (Inr n,
                         h @ [LimitOrderObj i fs (n + 1), PriceObj b' q', AmountObj ba bi]
                           @ (if q = b then [] else [AmountObj qa qi])))
                | _ \<Rightarrow> (Inl (OtherError ''TypeError''), h))
           | _ \<Rightarrow> (Inl (OtherError ''TypeError''), h))
      | _ \<Rightarrow> (Inl (OtherError ''TypeError''), h))"

text \<open>The accesses \<open>o['for_sale']\<close>, \<open>o['sell_price'][side]\<close> and \<open>[...]['amount']\<close>.\<close>

datatype side = Base | Quote

definition get_for_sale :: "addr \<Rightarrow> rat prog" where
  "get_for_sale a h =
     (case deref h a of
        Some (LimitOrderObj i fs sp) \<Rightarrow> (Inr fs, h)
      | _ \<Rightarrow> (Inl (OtherError ''KeyError''), h))"

definition get_sell_price_side :: "addr \<Rightarrow> side \<Rightarrow> addr prog" where
  "get_sell_price_side a sd h =
     (case deref h a of
        Some (LimitOrderObj i fs sp) \<Rightarrow>
          (case deref h sp of
             Some (PriceObj b q) \<Rightarrow> (Inr (case sd of Base \<Rightarrow> b | Quote \<Rightarrow> q), h)
           | _ \<Rightarrow> (Inl (OtherError ''KeyError''), h))
      | _ \<Rightarrow> (Inl (OtherError ''KeyError''), h))"

definition get_amount :: "addr \<Rightarrow> rat prog" where
  "get_amount a h =
     (case deref h a of
        Some (AmountObj x i) \<Rightarrow> (Inr x, h)
      | _ \<Rightarrow> (Inl (OtherError ''KeyError''), h))"

definition set_amount :: "addr \<Rightarrow> rat \<Rightarrow> unit prog" where
  "set_amount a v h =
     (case deref h a of
        Some (AmountObj x i) \<Rightarrow> (Inr (), h[a := AmountObj v i])
      | _ \<Rightarrow> (Inl (OtherError ''TypeError''), h))"

definition divide_prog :: "rat \<Rightarrow> rat \<Rightarrow> rat prog" where
  "divide_prog x y h = (py_div x y, h)"

definition get_updated_limit_order_store :: "addr \<Rightarrow> addr prog" where
  "get_updated_limit_order_store limit_order =
     bind_prog (deepcopy limit_order) (\<lambda>ord.
     bind_prog (get_sell_price_side ord Base) (\<lambda>b.
     bind_prog (get_amount b) (\<lambda>b_amount.
     bind_prog (get_sell_price_side ord Quote) (\<lambda>q.
     bind_prog (get_amount q) (\<lambda>q_amount.
     bind_prog (divide_prog b_amount q_amount) (\<lambda>price.
     bind_prog (get_for_sale ord) (\<lambda>base_amount.
     bind_prog (divide_prog (to_double base_amount) price) (\<lambda>quote_amount.
     bind_prog (get_sell_price_side ord Base) (\<lambda>b2.
     bind_prog (set_amount b2 base_amount) (\<lambda>u.
     bind_prog (get_sell_price_side ord Quote) (\<lambda>q2.
     bind_prog (set_amount q2 quote_amount) (\<lambda>u.
     return_prog ord))))))))))))"

text \<open>The value of the limit order at an address of the store.\<close>

definition read_limit_order :: "store \<Rightarrow> addr \<Rightarrow> limit_order option" where
  "read_limit_order h a =
     (case deref h a of
        Some (LimitOrderObj i fs sp) \<Rightarrow>
          (case deref h sp of
             Some (PriceObj b q) \<Rightarrow>
               (case (deref h b, deref h q) of
                  (Some (AmountObj ba bi), Some (AmountObj qa qi)) \<Rightarrow>
                    Some \<lparr>lo_id = i, for_sale = fs,
                          sell_price = \<lparr>sp_base = \<lparr>amount = ba, amount_asset_id = bi\<rparr>,
                                        sp_quote = \<lparr>amount = qa, amount_asset_id = qi\<rparr>\<rparr>\<rparr>
                | _ \<Rightarrow> None)
           | _ \<Rightarrow> None)
      | _ \<Rightarrow> None)"

section \<open>is_current_market\<close>

definition is_current_market :: "market \<Rightarrow> string \<Rightarrow> string \<Rightarrow> bool" where
  "is_current_market m base_asset_id quote_asset_id =
     (if quote_asset_id = asset_id (m_quote m) then
        (if base_asset_id = asset_id (m_base m) then True else False)
      else if quote_asset_id = asset_id (m_base m) then
        (if base_asset_id = asset_id (m_quote m) then True else False)
      else False)"

section \<open>Example inputs\<close>

text \<open>
  The market USD:BTS, an account without funds whose remote API accepts every call, and
  remote behaviours that answer with the errors the worker looks for.
\<close>

definition usd_bts :: market where
  "usd_bts = \<lparr>m_base = \<lparr>symbol = ''USD'', precision = 4, asset_id = ''1.3.121''\<rparr>,
              m_quote = \<lparr>symbol = ''BTS'', precision = 5, asset_id = ''1.3.0''\<rparr>\<rparr>"

definition gone :: "string \<Rightarrow> order_obj" where
  "gone i = \<lparr>o_id = Some i,
            o_base = \<lparr>a_amount = 0, a_symbol = [], a_asset_id = []\<rparr>,
            o_quote = \<lparr>a_amount = 0, a_symbol = [], a_asset_id = []\<rparr>,
            o_price = 0, o_deleted = True\<rparr>"

definition accepting :: "call list \<Rightarrow> call \<Rightarrow> exn + transaction" where
  "accepting h c = Inr \<lparr>orderid = ''1.7.9''\<rparr>"

definition idle_worker :: world where
  "idle_worker = \<lparr>disabled = False, recheck_orders = False, balances = (\<lambda>a. 0),
     limit_orders = [], ledger = gone, remote = accepting, calls = [],
     txbuffer_clears = 0, refreshes = 0, sleeps = [], lookups = []\<rparr>"

definition always_failing :: "call list \<Rightarrow> call \<Rightarrow> exn + transaction" where
  "always_failing h c = Inl (UnhandledRPCError ''Assert Exception: amount_to_sell.amount > 0'')"

definition failing_until :: "nat \<Rightarrow> call list \<Rightarrow> call \<Rightarrow> exn + transaction" where
  "failing_until n h c =
     (if length h < n then Inl (UnhandledRPCError ''Assert Exception: amount_to_sell.amount > 0'')
      else Inr \<lparr>orderid = ''1.7.1''\<rparr>)"

text \<open>The messages \<open>retry_action\<close> takes for transient.\<close>

definition transient :: "string \<Rightarrow> bool" where
  "transient msg =
     (contains ''Assert Exception: amount_to_sell.amount > 0'' msg \<or>
      contains ''now <= trx.expiration'' msg)"

definition funded_worker :: world where
  "funded_worker = idle_worker\<lparr>balances := (\<lambda>a. 100)\<rparr>"

text \<open>
  Three open orders, and a remote API that fails every batched cancel with a given
  exception and accepts every other call.
\<close>

definition open_order :: "string \<Rightarrow> order_obj" where
  "open_order i = (gone i)\<lparr>o_deleted := False\<rparr>"

definition batch_failing :: "exn \<Rightarrow> call list \<Rightarrow> call \<Rightarrow> exn + transaction" where
  "batch_failing e h c =
     (case c of
        Cancel (IdList ids) \<Rightarrow> Inl e
      | _ \<Rightarrow> Inr \<lparr>orderid = ''1.7.9''\<rparr>)"

definition not_found :: exn where
  "not_found = UnhandledRPCError
     ''Assert Exception: maybe_found != nullptr: Unable to find Object 1.7.2''"

definition fee_too_low :: exn where
  "fee_too_low = UnhandledRPCError ''Assert Exception: fee too low''"

definition three_orders :: "order_obj list" where
  "three_orders = [open_order ''1.7.1'', open_order ''1.7.2'', open_order ''1.7.3'']"

text \<open>Four orders at two prices, to tell a stable sort from another.\<close>

definition priced :: "string \<Rightarrow> rat \<Rightarrow> order_obj" where
  "priced i p = (open_order i)\<lparr>o_price := p\<rparr>"

definition four_orders :: "order_obj list" where
  "four_orders = [priced ''1.7.1'' 2, priced ''1.7.2'' 1, priced ''1.7.3'' 2, priced ''1.7.4'' 1]"

text \<open>
  A raw limit order of the market USD:BTS with the given id, remaining size and posted
  amounts, and a stand-in for the library's \<open>Order\<close> constructor that keeps the raw
  amounts.
\<close>

definition raw_order :: "string \<Rightarrow> rat \<Rightarrow> rat \<Rightarrow> rat \<Rightarrow> limit_order" where
  "raw_order i fs b q =
     \<lparr>lo_id = i, for_sale = fs,
      sell_price = \<lparr>sp_base = \<lparr>amount = b, amount_asset_id = ''1.3.121''\<rparr>,
                    sp_quote = \<lparr>amount = q, amount_asset_id = ''1.3.0''\<rparr>\<rparr>\<rparr>"

definition plain_order :: "limit_order \<Rightarrow> order_obj" where
  "plain_order lo =
     \<lparr>o_id = Some (lo_id lo),
      o_base = \<lparr>a_amount = amount (sp_base (sell_price lo)), a_symbol = [],
                a_asset_id = amount_asset_id (sp_base (sell_price lo))\<rparr>,
      o_quote = \<lparr>a_amount = amount (sp_quote (sell_price lo)), a_symbol = [],
                 a_asset_id = amount_asset_id (sp_quote (sell_price lo))\<rparr>,
      o_price = amount (sp_base (sell_price lo)) / amount (sp_quote (sell_price lo)),
      o_deleted = False\<rparr>"

text \<open>A store that holds one limit order, at address 3.\<close>

definition example_store :: store where
  "example_store =
     [AmountObj 100 ''1.3.121'', AmountObj 20 ''1.3.0'', PriceObj 0 1,
      LimitOrderObj ''1.7.1'' 50 2]"

section \<open>Properties\<close>

subsection \<open>Rounding\<close>

text \<open>Small integers are binary64 numbers; 3 / 7 is not.\<close>

lemma to_double_zero: "to_double 0 = 0"
  by (simp add: to_double_def)

lemma to_double_one: "to_double 1 = 1"
  by code_simp

lemma to_double_small: "to_double 5 = 5" "to_double 7 = 7" "to_double 10 = 10" "to_double 50 = 50"
  by code_simp+

lemma to_double_three_sevenths:
  "to_double (3 / 7) = 7720456504063707 / 18014398509481984"
  by code_simp

subsection \<open>Substrings and the effects on the worker\<close>

lemma contains_iff: "contains n h \<longleftrightarrow> (\<exists>p s. h = p @ n @ s)"
proof (induction h)
  case Nil
  then show ?case by auto
next
  case (Cons c cs)
  show ?case
  proof
    assume "contains n (c # cs)"
    then consider "prefix n (c # cs)" | "contains n cs" by auto
    then show "\<exists>p s. c # cs = p @ n @ s"
    proof cases
      case 1
      then obtain s where "c # cs = n @ s" by (auto simp: prefix_def)
      then have "c # cs = [] @ n @ s" by simp
      then show ?thesis by blast
    next
      case 2
      with Cons obtain p s where "cs = p @ n @ s" by auto
      then have "c # cs = (c # p) @ n @ s" by simp
      then show ?thesis by blast
    qed
  next
    assume "\<exists>p s. c # cs = p @ n @ s"
    then obtain p s where eq: "c # cs = p @ n @ s" by auto
    show "contains n (c # cs)"
    proof (cases p)
      case Nil
      with eq have "prefix n (c # cs)" by (simp add: prefix_def)
      then show ?thesis by simp
    next
      case (Cons a p')
      with eq have "cs = p' @ n @ s" by simp
      then have "contains n cs" using Cons.IH by blast
      then show ?thesis by simp
    qed
  qed
qed

lemma contains_self: "contains n n"
  using contains_iff[of n n] by (metis append_Nil append_Nil2)

lemmas world_effects = remote_call_def bitshares_cancel_def market_buy_def market_sell_def
  sleep_def account_refresh_def txbuffer_clear_def

subsection \<open>retry_action\<close>

text \<open>
  A remote call that fails with a transient message whatever was called before is made
  until the counter, which starts at 0 and is compared with \<open>tries > MAX_TRIES\<close> before
  it is incremented, has passed \<open>MAX_TRIES\<close>: from \<open>tries\<close> on there are
  \<open>MAX_TRIES + 2 - tries\<close> calls, and the last error is raised.
\<close>

lemma retry_loop_always_failing:
  assumes "\<forall>h. remote w h c = Inl (UnhandledRPCError msg)" and "transient msg"
    and "tries \<le> Suc MAX_TRIES"
  shows "fst (retry_loop (remote_call c) tries w) = Inl (UnhandledRPCError msg) \<and>
         calls (snd (retry_loop (remote_call c) tries w)) =
           calls w @ replicate (Suc (Suc MAX_TRIES) - tries) c"
  using assms
proof (induction "Suc MAX_TRIES - tries" arbitrary: tries w)
  case 0
  then have t: "tries > MAX_TRIES" by simp
  have r: "remote_call c w = (Inl (UnhandledRPCError msg), w\<lparr>calls := calls w @ [c]\<rparr>)"
    using 0 by (simp add: remote_call_def)
  from 0 have "Suc (Suc MAX_TRIES) - tries = 1" by simp
  with t r 0(3) show ?case
    by (auto simp: transient_def)
next
  case (Suc n)
  then have t: "\<not> tries > MAX_TRIES" by simp
  have r: "remote_call c w = (Inl (UnhandledRPCError msg), w\<lparr>calls := calls w @ [c]\<rparr>)"
    using Suc by (simp add: remote_call_def)
  let ?w1 = "w\<lparr>calls := calls w @ [c]\<rparr>"
  have ih: "\<And>w'. \<forall>h. remote w' h c = Inl (UnhandledRPCError msg) \<Longrightarrow>
     fst (retry_loop (remote_call c) (tries + 1) w') = Inl (UnhandledRPCError msg) \<and>
     calls (snd (retry_loop (remote_call c) (tries + 1) w')) =
        calls w' @ replicate (Suc (Suc MAX_TRIES) - (tries + 1)) c"
    using Suc(1)[of "tries + 1"] Suc(2) Suc(4) t by simp
  have rep: "Suc (Suc MAX_TRIES) - tries = Suc (Suc (Suc MAX_TRIES) - (tries + 1))"
    using t by simp
  show ?case
  proof (cases "contains ''Assert Exception: amount_to_sell.amount > 0'' msg")
    case True
    let ?w2 = "sleep 2 (account_refresh (txbuffer_clear ?w1))"
    have "retry_loop (remote_call c) tries w = retry_loop (remote_call c) (tries + 1) ?w2"
      using r t True by (subst retry_loop.simps) simp
    moreover have "\<forall>h. remote ?w2 h c = Inl (UnhandledRPCError msg)"
      using Suc(3) by (simp add: sleep_def account_refresh_def txbuffer_clear_def)
    moreover have "calls ?w2 = calls w @ [c]"
      by (simp add: sleep_def account_refresh_def txbuffer_clear_def)
    ultimately show ?thesis using ih[of ?w2] rep
      by (simp del: replicate_Suc retry_loop.simps) (simp add: replicate_app_Cons_same)
  next
    case False
    then have e: "contains ''now <= trx.expiration'' msg"
      using Suc(4) by (simp add: transient_def)
    let ?w2 = "sleep 6 (txbuffer_clear ?w1)"
    have "retry_loop (remote_call c) tries w = retry_loop (remote_call c) (tries + 1) ?w2"
      using r t False e by (subst retry_loop.simps) simp
    moreover have "\<forall>h. remote ?w2 h c = Inl (UnhandledRPCError msg)"
      using Suc(3) by (simp add: sleep_def txbuffer_clear_def)
    moreover have "calls ?w2 = calls w @ [c]"
      by (simp add: sleep_def txbuffer_clear_def)
    ultimately show ?thesis using ih[of ?w2] rep
      by (simp del: replicate_Suc retry_loop.simps) (simp add: replicate_app_Cons_same)
  qed
qed

text \<open>
  An action that has failed four times with a transient message and succeeds at the
  fifth call has its value returned.
\<close>

lemma retry_action_four_failures:
  "retry_action (bitshares_cancel ids) (w\<lparr>calls := [], remote := failing_until 4\<rparr>) =
     (Inr \<lparr>orderid = ''1.7.1''\<rparr>,
      w\<lparr>calls := replicate 5 (Cancel ids), remote := failing_until 4,
        txbuffer_clears := txbuffer_clears w + 4,
        refreshes := refreshes w + 4,
        sleeps := sleeps w @ [2, 2, 2, 2]\<rparr>)"
  by (simp add: retry_action_def failing_until_def world_effects contains_self MAX_TRIES_def
      numeral_eq_Suc)

text \<open>
  C1. On a remote call that raises the "amount_to_sell" error at every invocation,
  \<open>retry_action\<close> invokes the call five times, after four retries (four clears of the
  transaction buffer, four refreshes and four sleeps of 2 seconds), and then raises the
  error: one invocation more than the 3 retries (4 invocations) of the claim.
\<close>

theorem retry_action_always_failing:
  "retry_action (bitshares_cancel ids) (w\<lparr>remote := always_failing\<rparr>) =
     (Inl (UnhandledRPCError ''Assert Exception: amount_to_sell.amount > 0''),
      w\<lparr>remote := always_failing,
        calls := calls w @ replicate 5 (Cancel ids),
        txbuffer_clears := txbuffer_clears w + 4,
        refreshes := refreshes w + 4,
        sleeps := sleeps w @ [2, 2, 2, 2]\<rparr>)"
  by (simp add: retry_action_def always_failing_def world_effects contains_self MAX_TRIES_def
      numeral_eq_Suc)

subsection \<open>buy and sell\<close>

text \<open>
  C3. When the truncated base amount \<open>truncate (price * amount) precision\<close> is zero, or
  the free base balance is less than it, \<open>buy\<close> returns None without raising and sets
  the \<open>disabled\<close> flag; nothing else of the worker changes, so no call of the remote API
  is made and nothing is retried.
\<close>

theorem buy_business_rule_failure:
  assumes "truncate (price * amnt) (precision (m_base m)) = 0 \<or>
           balance w (m_base m) < truncate (price * amnt) (precision (m_base m))"
  shows "buy get_order m amnt price return_none w = (Inr None, w\<lparr>disabled := True\<rparr>)"
  using assms by (auto simp: buy_def Let_def)

theorem buy_business_rule_failure_witness:
  "balance idle_worker (m_base usd_bts) = 0 \<and>
   truncate (1 * 10) (precision (m_base usd_bts)) = 10 \<and>
   buy get_original_order usd_bts 10 1 False idle_worker =
     (Inr None, idle_worker\<lparr>disabled := True\<rparr>)"
  using buy_business_rule_failure [of 1 10 usd_bts idle_worker get_original_order False]
  by (simp add: truncate_def usd_bts_def idle_worker_def balance_def)

subsection \<open>is_current_market\<close>

text \<open>
  C10. \<open>is_current_market\<close> answers True exactly for the market's configured
  (base, quote) pair of asset ids and for the swapped pair, and False for every other
  pair of asset ids.
\<close>

theorem is_current_market_iff:
  "is_current_market m b q =
     ((b = asset_id (m_base m) \<and> q = asset_id (m_quote m)) \<or>
      (b = asset_id (m_quote m) \<and> q = asset_id (m_base m)))"
  by (auto simp: is_current_market_def)

subsection \<open>The disabled flag\<close>

text \<open>
  The remote calls and \<open>retry_action\<close> neither read nor write the \<open>disabled\<close> flag:
  setting it before the call is the same as setting it after.
\<close>

lemma remote_call_disabled:
  "remote_call c (w\<lparr>disabled := d\<rparr>) =
     (fst (remote_call c w), (snd (remote_call c w))\<lparr>disabled := d\<rparr>)"
  by (simp add: remote_call_def)

lemma retry_loop_disabled:
  assumes act: "\<And>w. action (w\<lparr>disabled := d\<rparr>) = (fst (action w), (snd (action w))\<lparr>disabled := d\<rparr>)"
  shows "retry_loop action t (w\<lparr>disabled := d\<rparr>) =
           (fst (retry_loop action t w), (snd (retry_loop action t w))\<lparr>disabled := d\<rparr>)"
proof (induction "Suc MAX_TRIES - t" arbitrary: t w)
  case 0
  then have t: "t > MAX_TRIES" by simp
  obtain r w1 where aw: "action w = (r, w1)" by (cases "action w")
  then have awd: "action (w\<lparr>disabled := d\<rparr>) = (r, w1\<lparr>disabled := d\<rparr>)"
    using act[of w] by simp
  show ?case
    using t aw awd
    by (subst (1 2 3) retry_loop.simps) (simp split: sum.splits exn.splits)
next
  case (Suc n)
  then have t: "\<not> t > MAX_TRIES" by simp
  obtain r w1 where aw: "action w = (r, w1)" by (cases "action w")
  then have awd: "action (w\<lparr>disabled := d\<rparr>) = (r, w1\<lparr>disabled := d\<rparr>)"
    using act[of w] by simp
  have ih: "\<And>w'. retry_loop action (t + 1) (w'\<lparr>disabled := d\<rparr>) =
     (fst (retry_loop action (t + 1) w'), (snd (retry_loop action (t + 1) w'))\<lparr>disabled := d\<rparr>)"
    using Suc(1)[of "t + 1"] Suc(2) by simp
  have comm2: "sleep 2 (account_refresh (txbuffer_clear (w1\<lparr>disabled := d\<rparr>))) =
               (sleep 2 (account_refresh (txbuffer_clear w1)))\<lparr>disabled := d\<rparr>"
    by (simp add: world_effects)
  have comm6: "sleep 6 (txbuffer_clear (w1\<lparr>disabled := d\<rparr>)) =
               (sleep 6 (txbuffer_clear w1))\<lparr>disabled := d\<rparr>"
    by (simp add: world_effects)
  show ?case
    using t aw awd ih comm2 comm6
    by (subst (1 2 3) retry_loop.simps) (simp split: sum.splits exn.splits del: retry_loop.simps)
qed

lemma retry_action_remote_call_disabled:
  "retry_action (remote_call c) (w\<lparr>disabled := d\<rparr>) =
     (fst (retry_action (remote_call c) w), (snd (retry_action (remote_call c) w))\<lparr>disabled := d\<rparr>)"
  unfolding retry_action_def by (rule retry_loop_disabled) (rule remote_call_disabled)

lemma retry_action_remote_call_keeps_disabled:
  "disabled (snd (retry_action (remote_call c) w)) = disabled w"
proof -
  have e: "snd (retry_action (remote_call c) w) =
      (snd (retry_action (remote_call c) w))\<lparr>disabled := disabled w\<rparr>"
    using arg_cong[OF retry_action_remote_call_disabled[where c = c and w = w and d = "disabled w"], of snd] by simp
  show ?thesis by (subst e) simp
qed

lemma buy_keeps_disabled:
  "disabled w \<Longrightarrow> disabled (snd (buy g m a p rn w))"
  using retry_action_remote_call_keeps_disabled[where c = "MarketBuy p a" and w = w]
  by (auto simp: buy_def Let_def market_buy_def split: prod.splits sum.splits option.splits)

lemma sell_keeps_disabled:
  "disabled w \<Longrightarrow> disabled (snd (sell g m a p rn w))"
  using retry_action_remote_call_keeps_disabled[where c = "MarketSell p a" and w = w]
  by (auto simp: sell_def Let_def market_sell_def split: prod.splits sum.splits option.splits)

lemma buy_calls_flag:
  "calls (snd (buy g m a p rn (w\<lparr>disabled := d\<rparr>))) = calls (snd (buy g m a p rn w))"
  using retry_action_remote_call_disabled[where c = "MarketBuy p a" and w = w and d = d]
  by (auto simp: buy_def Let_def market_buy_def balance_def
      split: prod.splits sum.splits option.splits)

lemma sell_calls_flag:
  "calls (snd (sell g m a p rn (w\<lparr>disabled := d\<rparr>))) = calls (snd (sell g m a p rn w))"
  using retry_action_remote_call_disabled[where c = "MarketSell p a" and w = w and d = d]
  by (auto simp: sell_def Let_def market_sell_def balance_def
      split: prod.splits sum.splits option.splits)

text \<open>The definitions a concrete run unfolds.\<close>

lemmas eval_defs = retry_action_def world_effects MAX_TRIES_def truncate_def balance_def
  usd_bts_def idle_worker_def funded_worker_def accepting_def gone_def get_original_order_def
  calculate_order_data_def invert_def Amount_def Let_def

text \<open>
  A remote call through \<open>retry_action\<close> is made at least once, and only that call is
  made; so \<open>buy\<close> and \<open>sell\<close> submit their order whenever the size is not zero and the
  balance suffices.
\<close>

lemma retry_loop_remote_call_calls:
  "\<exists>k>0. calls (snd (retry_loop (remote_call c) t w)) = calls w @ replicate k c"
proof (induction "Suc MAX_TRIES - t" arbitrary: t w)
  case 0
  then have t: "t > MAX_TRIES" by simp
  have "calls (snd (retry_loop (remote_call c) t w)) = calls w @ replicate 1 c"
    using t by (subst retry_loop.simps) (simp add: remote_call_def split: sum.splits exn.splits)
  then show ?case by blast
next
  case (Suc n)
  then have t: "\<not> t > MAX_TRIES" by simp
  let ?w1 = "w\<lparr>calls := calls w @ [c]\<rparr>"
  have ih: "\<And>w'. \<exists>k>0. calls (snd (retry_loop (remote_call c) (t + 1) w')) =
      calls w' @ replicate k c"
    using Suc(1)[of "t + 1"] Suc(2) by simp
  obtain k2 where k2: "k2 > 0" "calls (snd (retry_loop (remote_call c) (t + 1)
      (sleep 2 (account_refresh (txbuffer_clear ?w1))))) = calls w @ replicate (Suc k2) c"
    using ih[of "sleep 2 (account_refresh (txbuffer_clear ?w1))"]
    by (auto simp: world_effects replicate_app_Cons_same simp del: retry_loop.simps)
  obtain k6 where k6: "k6 > 0" "calls (snd (retry_loop (remote_call c) (t + 1)
      (sleep 6 (txbuffer_clear ?w1)))) = calls w @ replicate (Suc k6) c"
    using ih[of "sleep 6 (txbuffer_clear ?w1)"]
    by (auto simp: world_effects replicate_app_Cons_same simp del: retry_loop.simps)
  have one: "calls w @ [c] = calls w @ replicate (Suc 0) c" by simp
  have "calls (snd (retry_loop (remote_call c) t w)) = calls w @ replicate (Suc 0) c \<or>
        calls (snd (retry_loop (remote_call c) t w)) = calls w @ replicate (Suc k2) c \<or>
        calls (snd (retry_loop (remote_call c) t w)) = calls w @ replicate (Suc k6) c"
    using t k2(2) k6(2) one
    by (subst (1 2 3) retry_loop.simps)
       (simp add: remote_call_def split: sum.splits exn.splits del: retry_loop.simps replicate_Suc)
  then show ?case by blast
qed

lemma buy_submits:
  assumes "truncate (p * a) (precision (m_base m)) \<noteq> 0"
    and "\<not> balance w (m_base m) < truncate (p * a) (precision (m_base m))"
  shows "\<exists>k>0. calls (snd (buy g m a p rn w)) = calls w @ replicate k (MarketBuy p a)"
proof -
  obtain k where k: "k > 0"
    "calls (snd (retry_action (market_buy p a) w)) = calls w @ replicate k (MarketBuy p a)"
    using retry_loop_remote_call_calls[of "MarketBuy p a" 0 w]
    by (auto simp: retry_action_def market_buy_def)
  have "calls (snd (buy g m a p rn w)) = calls (snd (retry_action (market_buy p a) w))"
    using assms by (simp add: buy_def Let_def split: prod.splits sum.splits option.splits)
  with k show ?thesis by auto
qed

lemma sell_submits:
  assumes "truncate a (precision (m_quote m)) \<noteq> 0"
    and "\<not> balance w (m_quote m) < truncate a (precision (m_quote m))"
  shows "\<exists>k>0. calls (snd (sell g m a p rn w)) = calls w @ replicate k (MarketSell p a)"
proof -
  obtain k where k: "k > 0"
    "calls (snd (retry_action (market_sell p a) w)) = calls w @ replicate k (MarketSell p a)"
    using retry_loop_remote_call_calls[of "MarketSell p a" 0 w]
    by (auto simp: retry_action_def market_sell_def)
  have "calls (snd (sell g m a p rn w)) = calls (snd (retry_action (market_sell p a) w))"
    using assms by (simp add: sell_def Let_def split: prod.splits sum.splits option.splits)
  with k show ?thesis by auto
qed


text \<open>
  The other operations of the worker that change its state keep the flag as it is.
\<close>

lemma private_cancel_orders_keeps_disabled:
  "disabled (snd (private_cancel_orders orders w)) = disabled w"
  using retry_action_remote_call_keeps_disabled[where c = "Cancel orders" and w = w]
  by (auto simp: private_cancel_orders_def bitshares_cancel_def txbuffer_clear_def
      split: prod.splits sum.splits exn.splits)

lemma cancel_each_keeps_disabled:
  assumes "\<forall>x v. disabled v \<longrightarrow> disabled (snd (cancel x v))" and "disabled w"
  shows "disabled (snd (cancel_each cancel ids w))"
  using assms
proof (induction ids arbitrary: w)
  case Nil
  then show ?case by simp
next
  case (Cons i ids)
  obtain r w1 where c: "cancel (IdOne i) w = (r, w1)" by (cases "cancel (IdOne i) w")
  have "disabled w1" using Cons.prems c by (metis snd_conv)
  then show ?case using c Cons.IH[OF Cons.prems(1), of w1] by (cases r) simp_all
qed

lemma cancel_orders_keeps_disabled:
  assumes "\<forall>x v. disabled v \<longrightarrow> disabled (snd (cancel x v))" and "disabled w"
  shows "disabled (snd (cancel_orders cancel orders_in w))"
proof -
  let ?ids = "List.map_filter o_id (case orders_in of OneOrder ord \<Rightarrow> [ord] | ManyOrders os \<Rightarrow> os)"
  obtain r w1 where c: "cancel (IdList ?ids) w = (r, w1)" by (cases "cancel (IdList ?ids) w")
  have d: "disabled w1" using assms c by (metis snd_conv)
  show ?thesis
    using c d cancel_each_keeps_disabled[OF assms(1) d, of ?ids]
    by (cases r) (simp_all add: cancel_orders_def Let_def)
qed

lemma get_updated_order_keeps_disabled:
  "disabled (snd (get_updated_order order_of order_id w)) = disabled w"
  by (simp add: get_updated_order_def Let_def split: option.splits sum.splits)

lemma allocated_loop_keeps_disabled:
  "disabled (snd (allocated_loop order_of m ids q b w)) = disabled w"
proof (induction ids arbitrary: q b w)
  case Nil
  then show ?case by simp
next
  case (Cons i ids)
  obtain r w1 where g: "get_updated_order order_of i w = (r, w1)"
    by (cases "get_updated_order order_of i w")
  have "disabled w1 = disabled w"
    using get_updated_order_keeps_disabled[of order_of i w] g by simp
  then show ?case
    using g Cons.IH[of _ _ w1]
    by (simp add: Let_def split: sum.splits option.splits)
qed

lemma get_allocated_assets_keeps_disabled:
  "disabled (snd (get_allocated_assets order_of m order_ids return_asset w)) = disabled w"
proof -
  have "\<And>ids. disabled (snd (allocated_loop order_of m ids 0 0 w)) = disabled w"
    by (rule allocated_loop_keeps_disabled)
  then show ?thesis
    by (auto simp: get_allocated_assets_def Let_def split: prod.splits sum.splits
        dest!: arg_cong[where f = snd])
qed

text \<open>
  C4 (as amended). Once the \<open>disabled\<close> flag is set, \<open>buy\<close> and \<open>sell\<close> still submit
  an order to the remote API whenever the truncated size is not zero and the free balance
  suffices: they do not consult the flag, and the calls they make are the same whether it
  is set or not. No operation of the worker in base.py sets the flag back to false:
  \<open>buy\<close>, \<open>sell\<close>, \<open>retry_action\<close> on a remote call, \<open>_cancel_orders\<close>,
  \<open>cancel_orders\<close> (with any helper that keeps the flag), \<open>get_updated_order\<close> and
  \<open>get_allocated_assets\<close> leave a flag that is set as it is.
\<close>

theorem disabled_flag_kept_not_consulted:
  "(disabled w \<and> truncate (p * a) (precision (m_base m)) \<noteq> 0 \<and>
      \<not> balance w (m_base m) < truncate (p * a) (precision (m_base m)) \<longrightarrow>
      (\<exists>k>0. calls (snd (buy g m a p rn w)) = calls w @ replicate k (MarketBuy p a))) \<and>
   (disabled w \<and> truncate a (precision (m_quote m)) \<noteq> 0 \<and>
      \<not> balance w (m_quote m) < truncate a (precision (m_quote m)) \<longrightarrow>
      (\<exists>k>0. calls (snd (sell g m a p rn w)) = calls w @ replicate k (MarketSell p a))) \<and>
   calls (snd (buy g m a p rn (w\<lparr>disabled := True\<rparr>))) =
     calls (snd (buy g m a p rn (w\<lparr>disabled := False\<rparr>))) \<and>
   calls (snd (sell g m a p rn (w\<lparr>disabled := True\<rparr>))) =
     calls (snd (sell g m a p rn (w\<lparr>disabled := False\<rparr>))) \<and>
   (disabled w \<longrightarrow>
      disabled (snd (buy g m a p rn w)) \<and>
      disabled (snd (sell g m a p rn w)) \<and>
      disabled (snd (retry_action (remote_call c) w)) \<and>
      disabled (snd (private_cancel_orders orders w)) \<and>
      ((\<forall>x v. disabled v \<longrightarrow> disabled (snd (cancel x v))) \<longrightarrow>
         disabled (snd (cancel_orders cancel orders_in w))) \<and>
      disabled (snd (get_updated_order order_of order_id w)) \<and>
      disabled (snd (get_allocated_assets order_of m order_ids return_asset w)))"
  using buy_submits[of p a m w g rn] sell_submits[of a m w g p rn]
    cancel_orders_keeps_disabled[of cancel w orders_in]
  by (simp add: buy_keeps_disabled sell_keeps_disabled buy_calls_flag sell_calls_flag
      retry_action_remote_call_keeps_disabled private_cancel_orders_keeps_disabled
      get_updated_order_keeps_disabled get_allocated_assets_keeps_disabled)

theorem disabled_flag_kept_not_consulted_witness:
  "disabled (funded_worker\<lparr>disabled := True\<rparr>) \<and>
   truncate (5 * 10) (precision (m_base usd_bts)) = 50 \<and>
   balance (funded_worker\<lparr>disabled := True\<rparr>) (m_base usd_bts) = 100 \<and>
   truncate 10 (precision (m_quote usd_bts)) = 10 \<and>
   balance (funded_worker\<lparr>disabled := True\<rparr>) (m_quote usd_bts) = 100 \<and>
   calls (snd (buy missing_get_order usd_bts 10 5 False (funded_worker\<lparr>disabled := True\<rparr>))) =
     [MarketBuy 5 10] \<and>
   calls (snd (sell missing_get_order usd_bts 10 5 False (funded_worker\<lparr>disabled := True\<rparr>))) =
     [MarketSell 5 10] \<and>
   disabled (snd (buy missing_get_order usd_bts 10 5 False (funded_worker\<lparr>disabled := True\<rparr>))) \<and>
   disabled (snd (sell missing_get_order usd_bts 10 5 False (funded_worker\<lparr>disabled := True\<rparr>))) \<and>
   disabled (snd (retry_action (remote_call (Cancel (IdOne ''1.7.1'')))
                    (funded_worker\<lparr>disabled := True\<rparr>))) \<and>
   disabled (snd (private_cancel_orders (IdOne ''1.7.1'') (funded_worker\<lparr>disabled := True\<rparr>))) \<and>
   disabled (snd (cancel_orders private_cancel_orders (ManyOrders three_orders)
                    (funded_worker\<lparr>disabled := True\<rparr>))) \<and>
   disabled (snd (get_updated_order plain_order ''1.7.1'' (funded_worker\<lparr>disabled := True\<rparr>))) \<and>
   disabled (snd (get_allocated_assets plain_order usd_bts (Ids [''1.7.1'']) False
                    (funded_worker\<lparr>disabled := True\<rparr>)))"
  using disabled_flag_kept_not_consulted [where w = "funded_worker\<lparr>disabled := True\<rparr>"
      and g = missing_get_order and m = usd_bts and a = 10 and p = 5 and rn = False
      and c = "Cancel (IdOne ''1.7.1'')" and orders = "IdOne ''1.7.1''"
      and cancel = private_cancel_orders and orders_in = "ManyOrders three_orders"
      and order_of = plain_order and order_id = "''1.7.1''" and order_ids = "Ids [''1.7.1'']"
      and return_asset = False]
  by (simp add: buy_def sell_def missing_get_order_def eval_defs
      private_cancel_orders_keeps_disabled)

text \<open>
  The claim as stated fails: a \<open>buy\<close> of size 0 sets the flag, and the next \<open>buy\<close> or
  \<open>sell\<close> of 10 at price 5 on the same worker, whose balances are 100, still submits
  its order.
\<close>

theorem buy_after_disabled_counterexample:
  "disabled (snd (buy missing_get_order usd_bts 0 1 False funded_worker)) \<and>
   calls (snd (buy missing_get_order usd_bts 10 5 False
                (snd (buy missing_get_order usd_bts 0 1 False funded_worker)))) =
     [MarketBuy 5 10] \<and>
   calls (snd (sell missing_get_order usd_bts 10 5 False
                (snd (buy missing_get_order usd_bts 0 1 False funded_worker)))) =
     [MarketSell 5 10]"
  by (simp add: buy_def sell_def missing_get_order_def eval_defs)


subsection \<open>Orders filled at once\<close>

text \<open>
  \<open>calculate_order_data\<close> gives the order the quote amount \<open>amount\<close> in the market's
  quote asset, the base amount \<open>amount * price\<close> in the market's base asset, and the
  price.
\<close>

lemma calculate_order_data_amounts:
  "o_quote (calculate_order_data m ord amnt price) = Amount amnt (m_quote m) \<and>
   o_base (calculate_order_data m ord amnt price) = Amount (amnt * price) (m_base m) \<and>
   o_price (calculate_order_data m ord amnt price) = price"
  by (simp add: calculate_order_data_def Let_def)

text \<open>
  With any lookup that returns the order placed as deleted, \<open>sell\<close> returns the order of
  \<open>calculate_order_data\<close> inverted and sets \<open>recheck_orders\<close>.
\<close>

lemma sell_of_deleted_order:
  assumes "truncate amnt (precision (m_quote m)) \<noteq> 0"
    and "\<not> balance w (m_quote m) < truncate amnt (precision (m_quote m))"
    and "retry_action (market_sell price amnt) w = (Inr tx, w')"
    and "get_order (orderid tx) return_none w' = Inr (Some ord)"
    and "o_deleted ord"
  shows "o_quote (calculate_order_data m ord amnt price) = Amount amnt (m_quote m) \<and>
         o_base (calculate_order_data m ord amnt price) = Amount (amnt * price) (m_base m) \<and>
         sell get_order m amnt price return_none w =
           (Inr (Some (invert (calculate_order_data m ord amnt price))),
            w'\<lparr>recheck_orders := True\<rparr>) \<and>
         o_quote (invert (calculate_order_data m ord amnt price)) =
           Amount (amnt * price) (m_base m) \<and>
         o_base (invert (calculate_order_data m ord amnt price)) = Amount amnt (m_quote m)"
  using assms
  by (simp add: sell_def Let_def calculate_order_data_def invert_def)

text \<open>
  With the lookup of base.py, \<open>self.get_order\<close>, which no class defines, \<open>sell\<close> raises
  as soon as the order is placed.
\<close>

lemma sell_raises_after_placement:
  assumes "truncate amnt (precision (m_quote m)) \<noteq> 0"
    and "\<not> balance w (m_quote m) < truncate amnt (precision (m_quote m))"
    and "retry_action (market_sell price amnt) w = (Inr tx, w')"
  shows "sell missing_get_order m amnt price return_none w = (Inl (UndefinedName ''get_order''), w')"
  using assms by (simp add: sell_def Let_def missing_get_order_def)

text \<open>
  C7. For a sell of amount 5 at price 2, \<open>calculate_order_data\<close> gives base 10 (USD) and
  quote 5 (BTS), as the claim says for the record before the inversion. \<open>sell\<close> itself
  does not get there: it places the order and then raises on \<open>self.get_order\<close>, so no
  order with quote 10 and base 5 is returned.
\<close>

theorem sell_instant_fill_raises:
  "a_amount (o_base (calculate_order_data usd_bts (gone ''1.7.9'') 5 2)) = 10 \<and>
   a_symbol (o_base (calculate_order_data usd_bts (gone ''1.7.9'') 5 2)) = ''USD'' \<and>
   a_amount (o_quote (calculate_order_data usd_bts (gone ''1.7.9'') 5 2)) = 5 \<and>
   a_symbol (o_quote (calculate_order_data usd_bts (gone ''1.7.9'') 5 2)) = ''BTS'' \<and>
   sell missing_get_order usd_bts 5 2 False funded_worker =
     (Inl (UndefinedName ''get_order''), funded_worker\<lparr>calls := [MarketSell 2 5]\<rparr>)"
  by (simp add: sell_def missing_get_order_def eval_defs)

subsection \<open>Cancelling orders\<close>

text \<open>What \<open>_cancel_orders\<close> returns, by the outcome of the batched cancel.\<close>

lemma private_cancel_orders_result:
  assumes "retry_action (bitshares_cancel orders) w = (r, w')"
  shows "private_cancel_orders orders w =
     (case r of
        Inr t \<Rightarrow> (Inr True, w')
      | Inl (UnhandledRPCError msg) \<Rightarrow>
          if prefix ''Assert Exception: maybe_found != nullptr: Unable to find Object'' msg
          then (Inr False, txbuffer_clear w') else (Inr True, w')
      | Inl MissingKeyError \<Rightarrow> (Inr True, w')
      | Inl e \<Rightarrow> (Inl e, w'))"
  using assms by (simp add: private_cancel_orders_def split: sum.splits exn.splits)

text \<open>
  C2. \<open>cancel_orders\<close> raises on \<open>self._cancel\<close>, which no class defines, before any
  call of the remote API: whatever the batched cancel would answer, "Unable to find
  Object" or another error, no batched cancel and no individual cancel is made, for three
  orders as for any other argument.
\<close>

theorem cancel_orders_undefined_helper:
  "cancel_orders missing_cancel orders_in w = (Inl (UndefinedName ''_cancel''), w) \<and>
   calls (snd (cancel_orders missing_cancel (ManyOrders three_orders)
                 (idle_worker\<lparr>remote := batch_failing not_found\<rparr>))) = [] \<and>
   calls (snd (cancel_orders missing_cancel (ManyOrders three_orders)
                 (idle_worker\<lparr>remote := batch_failing fee_too_low\<rparr>))) = []"
  by (simp add: cancel_orders_def missing_cancel_def Let_def idle_worker_def)

text \<open>
  The rest of this section takes \<open>_cancel_orders\<close> for the helper, which base.py does
  not do. Then, for more than one order id, "Unable to find Object" on the batched cancel
  clears the transaction buffer and is followed by one cancel per id, while any other
  \<open>UnhandledRPCError\<close> and a \<open>MissingKeyError\<close> end the call without a fallback.
\<close>

text \<open>A remote call that the remote API accepts is made once.\<close>

lemma retry_action_accepted:
  assumes "remote w (calls w) c = Inr t"
  shows "retry_action (remote_call c) w = (Inr t, w\<lparr>calls := calls w @ [c]\<rparr>)"
  unfolding retry_action_def using assms
  by (subst retry_loop.simps) (simp add: remote_call_def)

text \<open>
  The loop of the fallback makes one call per order id when the remote API accepts the
  individual cancels.
\<close>

lemma cancel_each_accepted:
  assumes "\<forall>h i. \<exists>t. remote w h (Cancel (IdOne i)) = Inr t"
  shows "cancel_each private_cancel_orders ids w =
           (Inr (), w\<lparr>calls := calls w @ map (\<lambda>i. Cancel (IdOne i)) ids\<rparr>)"
  using assms
proof (induction ids arbitrary: w)
  case Nil
  then show ?case by simp
next
  case (Cons i ids)
  obtain t where t: "remote w (calls w) (Cancel (IdOne i)) = Inr t"
    using Cons.prems by blast
  let ?w1 = "w\<lparr>calls := calls w @ [Cancel (IdOne i)]\<rparr>"
  have one: "private_cancel_orders (IdOne i) w = (Inr True, ?w1)"
    using retry_action_accepted[OF t]
    by (simp add: private_cancel_orders_def bitshares_cancel_def)
  have "\<forall>h j. \<exists>t. remote ?w1 h (Cancel (IdOne j)) = Inr t"
    using Cons.prems by simp
  from Cons.IH[OF this] one show ?case by simp
qed

lemma cancel_orders_with_private_helper:
  assumes "orders = List.map_filter o_id order_list"
    and "1 < length orders"
    and "retry_action (bitshares_cancel (IdList orders)) w = (Inl e, w')"
  shows "(\<forall>msg. e = UnhandledRPCError msg \<and>
            prefix ''Assert Exception: maybe_found != nullptr: Unable to find Object'' msg \<longrightarrow>
            cancel_orders private_cancel_orders (ManyOrders order_list) w =
              cancel_each private_cancel_orders orders (txbuffer_clear w') \<and>
            ((\<forall>h i. \<exists>t. remote w' h (Cancel (IdOne i)) = Inr t) \<longrightarrow>
               calls (snd (cancel_orders private_cancel_orders (ManyOrders order_list) w)) =
                 calls w' @ map (\<lambda>i. Cancel (IdOne i)) orders)) \<and>
         (\<forall>msg. e = UnhandledRPCError msg \<and>
            \<not> prefix ''Assert Exception: maybe_found != nullptr: Unable to find Object'' msg \<longrightarrow>
            cancel_orders private_cancel_orders (ManyOrders order_list) w = (Inr (), w')) \<and>
         (e = MissingKeyError \<longrightarrow>
            cancel_orders private_cancel_orders (ManyOrders order_list) w = (Inr (), w')) \<and>
         ((\<forall>msg. e \<noteq> UnhandledRPCError msg) \<and> e \<noteq> MissingKeyError \<longrightarrow>
            cancel_orders private_cancel_orders (ManyOrders order_list) w = (Inl e, w'))"
proof (intro conjI allI impI)
  fix msg
  assume a: "e = UnhandledRPCError msg \<and>
     prefix ''Assert Exception: maybe_found != nullptr: Unable to find Object'' msg"
  show fb: "cancel_orders private_cancel_orders (ManyOrders order_list) w =
        cancel_each private_cancel_orders orders (txbuffer_clear w')"
    using assms a by (simp add: cancel_orders_def private_cancel_orders_def Let_def)
  assume acc: "\<forall>h i. \<exists>t. remote w' h (Cancel (IdOne i)) = Inr t"
  then have "\<forall>h i. \<exists>t. remote (txbuffer_clear w') h (Cancel (IdOne i)) = Inr t"
    by (simp add: txbuffer_clear_def)
  from cancel_each_accepted[OF this, of orders] fb
  show "calls (snd (cancel_orders private_cancel_orders (ManyOrders order_list) w)) =
          calls w' @ map (\<lambda>i. Cancel (IdOne i)) orders"
    by (simp add: txbuffer_clear_def)
next
  fix msg
  assume "e = UnhandledRPCError msg \<and>
     \<not> prefix ''Assert Exception: maybe_found != nullptr: Unable to find Object'' msg"
  then show "cancel_orders private_cancel_orders (ManyOrders order_list) w = (Inr (), w')"
    using assms by (simp add: cancel_orders_def private_cancel_orders_def Let_def)
next
  assume "e = MissingKeyError"
  then show "cancel_orders private_cancel_orders (ManyOrders order_list) w = (Inr (), w')"
    using assms by (simp add: cancel_orders_def private_cancel_orders_def Let_def)
next
  assume "(\<forall>msg. e \<noteq> UnhandledRPCError msg) \<and> e \<noteq> MissingKeyError"
  then show "cancel_orders private_cancel_orders (ManyOrders order_list) w = (Inl e, w')"
    using assms
    by (cases e) (simp_all add: cancel_orders_def private_cancel_orders_def Let_def)
qed

lemmas cancel_defs = cancel_orders_def private_cancel_orders_def three_orders_def
  open_order_def batch_failing_def not_found_def fee_too_low_def List.map_filter_def

lemma cancel_orders_with_private_helper_example:
  "calls (snd (cancel_orders private_cancel_orders (ManyOrders three_orders)
                 (idle_worker\<lparr>remote := batch_failing not_found\<rparr>))) =
     [Cancel (IdList [''1.7.1'', ''1.7.2'', ''1.7.3'']),
      Cancel (IdOne ''1.7.1''), Cancel (IdOne ''1.7.2''), Cancel (IdOne ''1.7.3'')] \<and>
   calls (snd (cancel_orders private_cancel_orders (ManyOrders three_orders)
                 (idle_worker\<lparr>remote := batch_failing fee_too_low\<rparr>))) =
     [Cancel (IdList [''1.7.1'', ''1.7.2'', ''1.7.3''])]"
  by (simp add: cancel_defs eval_defs)

subsection \<open>Sorting orders\<close>

text \<open>
  Python's \<open>sorted\<close> gives a rearrangement of its argument that is ordered by the key,
  upwards or, with \<open>reverse\<close>, downwards, and keeps the elements of equal key in the
  order they had.
\<close>

lemma sorted_py_ascending:
  "sorted_wrt (\<lambda>x y. key x \<le> key y) (sorted_py key False xs)"
  using sorted_sort_key[of key xs] by (simp add: sorted_py_def sorted_map)

lemma sorted_py_descending:
  "sorted_wrt (\<lambda>x y. key x \<ge> key y) (sorted_py key True xs)"
proof -
  have "sorted_wrt (\<lambda>x y. key x \<le> key y) (sort_key key (rev xs))"
    using sorted_sort_key[of key "rev xs"] by (simp add: sorted_map)
  then show ?thesis
    by (simp add: sorted_py_def sorted_wrt_rev)
qed

lemma sorted_py_mset: "mset (sorted_py key reverse xs) = mset xs"
  by (simp add: sorted_py_def)

lemma sorted_py_stable:
  "filter (\<lambda>x. key x = k) (sorted_py key reverse xs) = filter (\<lambda>x. key x = k) xs"
proof (cases reverse)
  case False
  then show ?thesis by (simp add: sorted_py_def sort_key_stable)
next
  case True
  have "filter (\<lambda>x. key x = k) (rev (sort_key key (rev xs))) =
        rev (filter (\<lambda>x. key x = k) (sort_key key (rev xs)))"
    by (simp add: rev_filter)
  also have "\<dots> = rev (filter (\<lambda>x. key x = k) (rev xs))"
    by (simp add: sort_key_stable)
  also have "\<dots> = filter (\<lambda>x. key x = k) xs"
    by (simp add: rev_filter)
  finally show ?thesis using True by (simp add: sorted_py_def)
qed

text \<open>
  C5. \<open>sort_orders\<close> with the direction ASC returns the orders sorted by non-decreasing
  price, with DESC by non-increasing price, in both cases a rearrangement of the list
  given in which orders of equal price keep their original order; the direction is read
  through \<open>upper()\<close>. With any other direction it returns None.
\<close>

theorem sort_orders_directions:
  "(upper d = ''ASC'' \<longrightarrow>
      (\<exists>r. sort_orders orders d = Some r \<and>
           sorted_wrt (\<lambda>x y. o_price x \<le> o_price y) r \<and> mset r = mset orders \<and>
           (\<forall>k. filter (\<lambda>x. o_price x = k) r = filter (\<lambda>x. o_price x = k) orders))) \<and>
   (upper d = ''DESC'' \<longrightarrow>
      (\<exists>r. sort_orders orders d = Some r \<and>
           sorted_wrt (\<lambda>x y. o_price x \<ge> o_price y) r \<and> mset r = mset orders \<and>
           (\<forall>k. filter (\<lambda>x. o_price x = k) r = filter (\<lambda>x. o_price x = k) orders))) \<and>
   (upper d \<noteq> ''ASC'' \<and> upper d \<noteq> ''DESC'' \<longrightarrow> sort_orders orders d = None)"
  by (simp add: sort_orders_def sorted_py_ascending sorted_py_descending sorted_py_mset
      sorted_py_stable)

theorem sort_orders_directions_witness:
  "upper ''ASC'' = ''ASC'' \<and>
   sort_orders four_orders ''ASC'' =
     Some [priced ''1.7.2'' 1, priced ''1.7.4'' 1, priced ''1.7.1'' 2, priced ''1.7.3'' 2] \<and>
   upper ''desc'' = ''DESC'' \<and>
   sort_orders four_orders ''desc'' =
     Some [priced ''1.7.1'' 2, priced ''1.7.3'' 2, priced ''1.7.2'' 1, priced ''1.7.4'' 1] \<and>
   upper ''up'' \<noteq> ''ASC'' \<and> upper ''up'' \<noteq> ''DESC'' \<and>
   sort_orders four_orders ''up'' = None"
  using sort_orders_directions [where d = "''ASC''" and orders = four_orders]
    sort_orders_directions [where d = "''desc''" and orders = four_orders]
    sort_orders_directions [where d = "''up''" and orders = four_orders]
  by (simp add: sort_orders_def sorted_py_def upper_def upper_char_def four_orders_def
      priced_def open_order_def gone_def)

subsection \<open>Updated limit orders\<close>

text \<open>
  C6 (as amended). For a raw limit order whose \<open>sell_price\<close> has a non-zero quote amount
  and whose original price, the base amount over the quote amount of \<open>sell_price\<close> as
  Python rounds it, is not zero, \<open>get_updated_limit_order\<close> returns a record whose base
  amount is the remaining size \<open>for_sale\<close> and whose quote amount is \<open>for_sale\<close> divided
  by that original price, again as Python rounds it. The id, \<open>for_sale\<close> and the asset
  ids are as in the argument. The price of the returned record, its base amount over its
  quote amount, is not said to be the original price.
\<close>

theorem get_updated_limit_order_amounts:
  assumes "amount (sp_quote (sell_price lo)) \<noteq> 0"
    and "to_double (amount (sp_base (sell_price lo)) / amount (sp_quote (sell_price lo))) \<noteq> 0"
  shows "\<exists>r. get_updated_limit_order lo = Inr r \<and>
     amount (sp_base (sell_price r)) = for_sale lo \<and>
     amount (sp_quote (sell_price r)) =
       to_double (to_double (for_sale lo) /
         to_double (amount (sp_base (sell_price lo)) / amount (sp_quote (sell_price lo)))) \<and>
     lo_id r = lo_id lo \<and> for_sale r = for_sale lo \<and>
     amount_asset_id (sp_base (sell_price r)) = amount_asset_id (sp_base (sell_price lo)) \<and>
     amount_asset_id (sp_quote (sell_price r)) = amount_asset_id (sp_quote (sell_price lo))"
  using assms by (simp add: get_updated_limit_order_def py_div_def Let_def)

theorem get_updated_limit_order_amounts_witness:
  "amount (sp_quote (sell_price (raw_order ''1.7.1'' 50 100 20))) \<noteq> 0 \<and>
   to_double (amount (sp_base (sell_price (raw_order ''1.7.1'' 50 100 20))) /
              amount (sp_quote (sell_price (raw_order ''1.7.1'' 50 100 20)))) = 5 \<and>
   get_updated_limit_order (raw_order ''1.7.1'' 50 100 20) = Inr (raw_order ''1.7.1'' 50 50 10)"
  using get_updated_limit_order_amounts [where lo = "raw_order ''1.7.1'' 50 100 20"]
  by (simp add: get_updated_limit_order_def py_div_def Let_def raw_order_def to_double_small)

text \<open>
  The claim as stated fails. For a remaining size of 7 and posted amounts 3 and 7, the
  original price is the binary64 number next to 3 / 7, the new quote amount is the one
  next to 49 / 3, and the price of the returned record, 7 over that quote amount, is
  another number than the original price, both exactly and as Python rounds it. And for
  a base amount of zero the price is zero and the second division raises.
\<close>

theorem get_updated_limit_order_counterexample:
  "get_updated_limit_order (raw_order ''1.7.1'' 7 3 7) =
     Inr (raw_order ''1.7.1'' 7 7 (2298712309803691 / 140737488355328)) \<and>
   to_double (3 / 7) = 7720456504063707 / 18014398509481984 \<and>
   to_double (7 / (2298712309803691 / 140737488355328)) =
     3860228252031853 / 9007199254740992 \<and>
   to_double (7 / (2298712309803691 / 140737488355328)) \<noteq> to_double (3 / 7) \<and>
   7 / (2298712309803691 / 140737488355328) \<noteq> to_double (3 / 7) \<and>
   amount (sp_quote (sell_price (raw_order ''1.7.1'' 5 0 1))) \<noteq> 0 \<and>
   get_updated_limit_order (raw_order ''1.7.1'' 5 0 1) = Inl ZeroDivisionError"
  by code_simp

text \<open>A zero quote amount and a zero base amount make \<open>get_updated_limit_order\<close> raise.\<close>

lemma get_updated_limit_order_raises:
  assumes "amount (sp_quote (sell_price lo)) = 0 \<or> amount (sp_base (sell_price lo)) = 0"
  shows "get_updated_limit_order lo = Inl ZeroDivisionError"
  using assms by (auto simp: get_updated_limit_order_def py_div_def Let_def to_double_zero)

subsection \<open>Allocated assets\<close>

text \<open>
  An id that no entry of \<open>account['limit_orders']\<close> has gives None; the lookup reads the
  account's limit orders only and leaves them as they are.
\<close>

lemma get_updated_order_missing:
  assumes "order_id \<notin> lo_id ` set (limit_orders w)"
  shows "get_updated_order order_of order_id w = (Inr None, w\<lparr>lookups := lookups w @ [order_id]\<rparr>)"
proof -
  have "find (\<lambda>limit_order. order_id = lo_id limit_order) (limit_orders w) = None"
    using assms by (auto simp: find_None_iff)
  then show ?thesis by (simp add: get_updated_order_def Let_def)
qed

lemma get_updated_order_view:
  "limit_orders (snd (get_updated_order order_of order_id w)) = limit_orders w"
  by (simp add: get_updated_order_def Let_def split: option.splits sum.splits)

lemma get_updated_order_result:
  assumes "limit_orders w = limit_orders w'"
  shows "fst (get_updated_order order_of order_id w) = fst (get_updated_order order_of order_id w')"
  using assms by (simp add: get_updated_order_def Let_def split: option.splits sum.splits)

lemma allocated_loop_skips_missing:
  assumes "limit_orders w = limit_orders w'"
  shows "fst (allocated_loop order_of m ids q b w) =
         fst (allocated_loop order_of m
                (filter (\<lambda>i. i \<in> lo_id ` set (limit_orders w)) ids) q b w')"
  using assms
proof (induction ids arbitrary: q b w w')
  case Nil
  then show ?case by simp
next
  case (Cons i ids)
  obtain r w1 where g: "get_updated_order order_of i w = (r, w1)"
    by (cases "get_updated_order order_of i w")
  have v1: "limit_orders w1 = limit_orders w"
    using get_updated_order_view[of order_of i w] g by simp
  show ?case
  proof (cases "i \<in> lo_id ` set (limit_orders w)")
    case False
    then have "get_updated_order order_of i w = (Inr None, w\<lparr>lookups := lookups w @ [i]\<rparr>)"
      by (rule get_updated_order_missing)
    moreover have "limit_orders (w\<lparr>lookups := lookups w @ [i]\<rparr>) = limit_orders w'"
      using Cons.prems by simp
    ultimately show ?thesis
      using False Cons.IH[of "w\<lparr>lookups := lookups w @ [i]\<rparr>" w' q b] by simp
  next
    case True
    obtain r' w1' where g': "get_updated_order order_of i w' = (r', w1')"
      by (cases "get_updated_order order_of i w'")
    have rr: "r' = r"
      using get_updated_order_result[OF Cons.prems, of order_of i] g g' by simp
    have v1': "limit_orders w1' = limit_orders w'"
      using get_updated_order_view[of order_of i w'] g' by simp
    have vv: "limit_orders w1 = limit_orders w1'"
      using v1 v1' Cons.prems by simp
    have ih: "\<And>q b. fst (allocated_loop order_of m ids q b w1) =
        fst (allocated_loop order_of m
               (filter (\<lambda>i. i \<in> lo_id ` set (limit_orders w)) ids) q b w1')"
      using Cons.IH[OF vv] v1 by simp
    show ?thesis
      using True g g' rr ih
      by (simp add: Let_def split: sum.splits option.splits)
  qed
qed

text \<open>
  C8. With no list of order ids, an empty list or an empty string, \<open>get_allocated_assets\<close>
  returns quote 0 and base 0 (as numbers, or as amounts of the market's assets when
  \<open>return_asset\<close> is set) and leaves the worker as it is, so no order is looked up. In
  general the sums are those over the ids that an entry of \<open>account['limit_orders']\<close>
  has: the other ids contribute nothing.
\<close>

theorem get_allocated_assets_empty:
  "get_allocated_assets order_of m NoIds False w =
     (Inr \<lparr>quote = Number 0, base = Number 0\<rparr>, w) \<and>
   get_allocated_assets order_of m (Ids []) False w =
     (Inr \<lparr>quote = Number 0, base = Number 0\<rparr>, w) \<and>
   get_allocated_assets order_of m (OneId []) False w =
     (Inr \<lparr>quote = Number 0, base = Number 0\<rparr>, w) \<and>
   get_allocated_assets order_of m NoIds True w =
     (Inr \<lparr>quote = AmountOf (Amount 0 (m_quote m)), base = AmountOf (Amount 0 (m_base m))\<rparr>, w) \<and>
   get_allocated_assets order_of m (Ids []) True w =
     (Inr \<lparr>quote = AmountOf (Amount 0 (m_quote m)), base = AmountOf (Amount 0 (m_base m))\<rparr>, w) \<and>
   fst (get_allocated_assets order_of m (Ids ids) return_asset w) =
     fst (get_allocated_assets order_of m
            (Ids (filter (\<lambda>i. i \<in> lo_id ` set (limit_orders w)) ids)) return_asset w)"
proof -
  let ?present = "filter (\<lambda>i. i \<in> lo_id ` set (limit_orders w)) ids"
  have e: "fst (allocated_loop order_of m ids 0 0 w) =
           fst (allocated_loop order_of m ?present 0 0 w)"
    by (rule allocated_loop_skips_missing) simp
  obtain r w1 where a: "allocated_loop order_of m ids 0 0 w = (r, w1)"
    by (cases "allocated_loop order_of m ids 0 0 w")
  obtain r' w1' where b: "allocated_loop order_of m ?present 0 0 w = (r', w1')"
    by (cases "allocated_loop order_of m ?present 0 0 w")
  from e a b have rr: "r' = r" by simp
  have skip: "fst (get_allocated_assets order_of m (Ids ids) return_asset w) =
     fst (get_allocated_assets order_of m (Ids ?present) return_asset w)"
    using a b rr by (cases r) (auto simp: get_allocated_assets_def)
  have empty: "allocated_loop order_of m [] 0 0 w = (Inr (0, 0), w)"
    by simp
  show ?thesis
    using skip empty by (simp add: get_allocated_assets_def)
qed

text \<open>Two ids without an order around one that locks 50 of the base asset.\<close>

lemma get_allocated_assets_example:
  "get_allocated_assets plain_order usd_bts (Ids [''1.7.7'', ''1.7.1'', ''1.7.8'']) False
     (idle_worker\<lparr>limit_orders := [raw_order ''1.7.1'' 50 100 20]\<rparr>) =
   (Inr \<lparr>quote = Number 0, base = Number 50\<rparr>,
    idle_worker\<lparr>limit_orders := [raw_order ''1.7.1'' 50 100 20],
                lookups := [''1.7.7'', ''1.7.1'', ''1.7.8'']\<rparr>)"
  by (simp add: get_allocated_assets_def get_updated_order_def get_updated_limit_order_def
      py_div_def plain_order_def raw_order_def usd_bts_def idle_worker_def Let_def
      to_double_small)

subsection \<open>Updated limit orders in the store\<close>

text \<open>
  The copy either fails, leaving the store as it is, or finds the four objects of the
  limit order; the lemmas after it give the result of \<open>get_updated_limit_order\<close> in
  both shapes of the order, with a base and a quote that are two objects or one.
\<close>

lemmas store_defs = get_updated_limit_order_store_def bind_prog_def return_prog_def
  deepcopy_def get_for_sale_def get_sell_price_side_def get_amount_def set_amount_def
  divide_prog_def py_div_def deref_def

lemma deepcopy_fails_or_copies:
  "deepcopy a h = (Inl (OtherError ''TypeError''), h) \<or>
   (\<exists>i fs sp b q ba bi qa qi.
      deref h a = Some (LimitOrderObj i fs sp) \<and> deref h sp = Some (PriceObj b q) \<and>
      deref h b = Some (AmountObj ba bi) \<and> deref h q = Some (AmountObj qa qi))"
  by (auto simp: deepcopy_def Let_def split: option.splits obj.splits)

lemma store_result_fails:
  assumes "deepcopy a h = (Inl e, h')"
  shows "get_updated_limit_order_store a h = (Inl e, h)"
proof -
  have "h' = h"
    using assms by (auto simp: deepcopy_def Let_def split: option.splits obj.splits)
  with assms show ?thesis
    by (simp add: get_updated_limit_order_store_def bind_prog_def)
qed

lemma store_result_distinct:
  assumes "deref h a = Some (LimitOrderObj i fs sp)" and "deref h sp = Some (PriceObj b q)"
    and "deref h b = Some (AmountObj ba bi)" and "deref h q = Some (AmountObj qa qi)"
    and "q \<noteq> b"
  shows "get_updated_limit_order_store a h =
     (if qa = 0 \<or> to_double (ba / qa) = 0 then
        (Inl ZeroDivisionError,
         h @ [LimitOrderObj i fs (length h + 1), PriceObj (length h + 2) (length h + 3),
              AmountObj ba bi, AmountObj qa qi])
      else
        (Inr (length h),
         h @ [LimitOrderObj i fs (length h + 1), PriceObj (length h + 2) (length h + 3),
              AmountObj fs bi,
              AmountObj (to_double (to_double fs / to_double (ba / qa))) qi]))"
  using assms
  by (simp add: store_defs Let_def nth_append list_update_append)

lemma store_result_shared:
  assumes "deref h a = Some (LimitOrderObj i fs sp)" and "deref h sp = Some (PriceObj b b)"
    and "deref h b = Some (AmountObj ba bi)"
  shows "get_updated_limit_order_store a h =
     (if ba = 0 then
        (Inl ZeroDivisionError,
         h @ [LimitOrderObj i fs (length h + 1), PriceObj (length h + 2) (length h + 2),
              AmountObj ba bi])
      else
        (Inr (length h),
         h @ [LimitOrderObj i fs (length h + 1), PriceObj (length h + 2) (length h + 2),
              AmountObj (to_double (to_double fs)) bi]))"
  using assms
  by (simp add: store_defs Let_def nth_append list_update_append to_double_one)

text \<open>Objects added to the end of the store do not change a limit order read from it.\<close>

lemma read_limit_order_append:
  assumes "deref h a = Some (LimitOrderObj i fs sp)" and "deref h sp = Some (PriceObj b q)"
    and "deref h b = Some (AmountObj ba bi)" and "deref h q = Some (AmountObj qa qi)"
  shows "read_limit_order (h @ xs) a = read_limit_order h a"
  using assms
  by (simp add: read_limit_order_def deref_def nth_append split: if_splits)

text \<open>
  C9. \<open>get_updated_limit_order\<close> leaves its argument unchanged: every object that was
  in the store before the call is the same after it, so the limit order read at the
  argument's address is the same; the record returned is a new object, and the
  assignments go to the copy.
\<close>

theorem get_updated_limit_order_store_frame:
  "take (length h) (snd (get_updated_limit_order_store a h)) = h \<and>
   read_limit_order (snd (get_updated_limit_order_store a h)) a = read_limit_order h a \<and>
   (\<forall>r. fst (get_updated_limit_order_store a h) = Inr r \<longrightarrow>
      length h \<le> r \<and> r < length (snd (get_updated_limit_order_store a h)))"
proof -
  consider (fails) "deepcopy a h = (Inl (OtherError ''TypeError''), h)"
    | (copies) i fs sp b q ba bi qa qi where
        "deref h a = Some (LimitOrderObj i fs sp)" "deref h sp = Some (PriceObj b q)"
        "deref h b = Some (AmountObj ba bi)" "deref h q = Some (AmountObj qa qi)"
    using deepcopy_fails_or_copies[of a h] by blast
  then show ?thesis
  proof cases
    case fails
    then show ?thesis by (simp add: store_result_fails)
  next
    case copies
    note rd = read_limit_order_append[OF copies]
    show ?thesis
    proof (cases "q = b")
      case True
      with copies have "deref h sp = Some (PriceObj b b)" by simp
      from store_result_shared[OF copies(1) this copies(3)] rd show ?thesis
        by simp
    next
      case False
      from store_result_distinct[OF copies False] rd show ?thesis
        by simp
    qed
  qed
qed

text \<open>
  The record returned in the store holds what \<open>get_updated_limit_order\<close> on values
  returns, and the two raise alike.
\<close>

lemma get_updated_limit_order_store_refines:
  assumes "deref h a = Some (LimitOrderObj i fs sp)" and "deref h sp = Some (PriceObj b q)"
    and "deref h b = Some (AmountObj ba bi)" and "deref h q = Some (AmountObj qa qi)"
    and "q \<noteq> b" and "read_limit_order h a = Some lo"
  shows "(\<forall>e. get_updated_limit_order lo = Inl e \<longrightarrow>
            fst (get_updated_limit_order_store a h) = Inl e) \<and>
         (\<forall>lo'. get_updated_limit_order lo = Inr lo' \<longrightarrow>
            fst (get_updated_limit_order_store a h) = Inr (length h) \<and>
            read_limit_order (snd (get_updated_limit_order_store a h)) (length h) = Some lo')"
proof -
  have lo: "lo = \<lparr>lo_id = i, for_sale = fs,
      sell_price = \<lparr>sp_base = \<lparr>amount = ba, amount_asset_id = bi\<rparr>,
                    sp_quote = \<lparr>amount = qa, amount_asset_id = qi\<rparr>\<rparr>\<rparr>"
    using assms by (simp add: read_limit_order_def)
  show ?thesis
    unfolding store_result_distinct[OF assms(1-5)] lo
    by (auto simp: get_updated_limit_order_def py_div_def Let_def read_limit_order_def
        deref_def nth_append)
qed

theorem get_updated_limit_order_store_frame_witness:
  "get_updated_limit_order_store 3 example_store =
     (Inr 4, example_store @
        [LimitOrderObj ''1.7.1'' 50 5, PriceObj 6 7, AmountObj 50 ''1.3.121'',
         AmountObj 10 ''1.3.0'']) \<and>
   take (length example_store) (snd (get_updated_limit_order_store 3 example_store)) =
     example_store \<and>
   read_limit_order example_store 3 = Some (raw_order ''1.7.1'' 50 100 20) \<and>
   read_limit_order (snd (get_updated_limit_order_store 3 example_store)) 3 =
     Some (raw_order ''1.7.1'' 50 100 20) \<and>
   read_limit_order (snd (get_updated_limit_order_store 3 example_store)) 4 =
     Some (raw_order ''1.7.1'' 50 50 10) \<and>
   length example_store \<le> 4"
  using get_updated_limit_order_store_frame [where a = 3 and h = example_store]
  by (simp add: store_defs Let_def example_store_def read_limit_order_def raw_order_def
      to_double_small)

subsection \<open>The handler of the strategy\<close>

text \<open>\<open>Strategy.error\<close> clears the \<open>disabled\<close> flag, whatever it was.\<close>

lemma strategy_error_clears: "\<not> disabled (strategy_error w)"
  by (simp add: strategy_error_def)

end
